theory Spec2Isabelle
  imports Complex_Main
begin

section \<open>Errors\<close>

text \<open>
  Every exception the script can meet is a value of \<open>error\<close>; the string is the text
  that \<^verbatim>\<open>str(e)\<close> gives and that the handlers write to the log. \<open>IndexError\<close> and
  \<open>KeyError\<close> are Python's two subclasses of \<open>LookupError\<close>.
\<close>

datatype error =
    IndexError string
  | KeyError string
  | TypeError string
  | ValueError string
  | NameError string
  | OSError string
  | RequestError string
  | DatabaseError string

definition apos :: string where
  "apos = [CHR 0x27]"

fun str_of :: "error \<Rightarrow> string" where
  "str_of (IndexError m) = m"
| "str_of (KeyError k) = apos @ k @ apos"
| "str_of (TypeError m) = m"
| "str_of (ValueError m) = m"
| "str_of (NameError m) = m"
| "str_of (OSError m) = m"
| "str_of (RequestError m) = m"
| "str_of (DatabaseError m) = m"

fun is_LookupError :: "error \<Rightarrow> bool" where
  "is_LookupError (IndexError m) = True"
| "is_LookupError (KeyError k) = True"
| "is_LookupError e = False"

section \<open>The parsed page\<close>

text \<open>
  The tree that \<^verbatim>\<open>BeautifulSoup(page, "html.parser")\<close> builds: a \<open>Text\<close> is a
  NavigableString, an \<open>Elem\<close> is a Tag with its name, its attribute dictionary and
  its \<^verbatim>\<open>contents\<close>.
\<close>

datatype node = Text string | Elem string "(string \<times> string) list" "node list"

fun contents :: "node \<Rightarrow> node list" where
  "contents (Text s) = []"
| "contents (Elem t as cs) = cs"

text \<open>All nodes below a node, in document order (the order \<^verbatim>\<open>find_all\<close> walks).\<close>

fun descendants :: "node \<Rightarrow> node list" where
  "descendants (Text s) = []"
| "descendants (Elem t as cs) = concat (map (\<lambda>c. c # descendants c) cs)"

fun is_tag :: "string \<Rightarrow> node \<Rightarrow> bool" where
  "is_tag name (Text s) = False"
| "is_tag name (Elem t as cs) = (t = name)"

definition find_all :: "string \<Rightarrow> node \<Rightarrow> node list" where
  "find_all name n = filter (is_tag name) (descendants n)"

text \<open>An expression raises or has a value; the next one is evaluated on a value.\<close>

definition and_then :: "error + 'a \<Rightarrow> ('a \<Rightarrow> error + 'b) \<Rightarrow> error + 'b" where
  "and_then r k = (case r of Inl e \<Rightarrow> Inl e | Inr x \<Rightarrow> k x)"

text \<open>\<^verbatim>\<open>xs[i]\<close> for a non-negative literal index: IndexError out of range.\<close>

definition index :: "'a list \<Rightarrow> nat \<Rightarrow> error + 'a" where
  "index xs i = (if i < length xs then Inr (xs ! i) else Inl (IndexError ''list index out of range''))"

text \<open>
  \<^verbatim>\<open>tag["title"]\<close> reads the attribute dictionary and raises KeyError when the key
  is absent. On a NavigableString the subscript is string indexing, which refuses a
  string index with a TypeError.
\<close>

fun attr :: "node \<Rightarrow> string \<Rightarrow> error + string" where
  "attr (Elem t as cs) k = (case map_of as k of Some v \<Rightarrow> Inr v | None \<Rightarrow> Inl (KeyError k))"
| "attr (Text s) k = Inl (TypeError ''string indices must be integers'')"

text \<open>
  \<^verbatim>\<open>node[:-1]\<close>: on a NavigableString the slice drops the last character (and
  leaves the empty string empty); on a Tag the subscript is an attribute lookup, which
  fails on a slice.
\<close>

fun drop_last :: "node \<Rightarrow> error + string" where
  "drop_last (Text s) = Inr (butlast s)"
| "drop_last (Elem t as cs) = Inl (TypeError ''unhashable type: slice'')"

section \<open>Floating-point numbers\<close>

text \<open>
  The 64-bit floats of Python, numpy and the SQL engine are a type parameter \<open>'f\<close>
  with the operations the script uses on them: the product of two floats, numpy's
  rounding to two decimals, Python's \<^verbatim>\<open>float(str)\<close> (None where it raises
  ValueError), the conversion of an integer, the number the SQL engine reads a text value
  as, the engine's average of a non-empty list, and the text \<^verbatim>\<open>str\<close> prints a float as. Every general theorem below holds
  for any such operations.
\<close>

record 'f float_ops =
  fmul :: "'f \<Rightarrow> 'f \<Rightarrow> 'f"
  fround2 :: "'f \<Rightarrow> 'f"
  fparse :: "string \<Rightarrow> 'f option"
  fofint :: "int \<Rightarrow> 'f"
  ftext :: "string \<Rightarrow> 'f"
  favg :: "'f list \<Rightarrow> 'f"
  fshow :: "'f \<Rightarrow> string"

section \<open>Data frames\<close>

text \<open>
  A cell holds a string, a float, an integer or the missing-value marker (NaN in a
  frame, NULL in a table). A frame is its columns in order, each a label and the
  values of its rows; column labels are unique in every frame the script builds.
\<close>

datatype 'f cell = Str string | Num 'f | IntC int | Missing

type_synonym 'f frame = "(string \<times> 'f cell list) list"

definition nrows :: "'f frame \<Rightarrow> nat" where
  "nrows fr = (case fr of [] \<Rightarrow> 0 | c # cs \<Rightarrow> length (snd c))"

text \<open>\<^verbatim>\<open>pd.DataFrame(columns=table_attribs)\<close>: the named columns and no row.\<close>

definition DataFrame :: "string list \<Rightarrow> 'f frame" where
  "DataFrame table_attribs = map (\<lambda>c. (c, [])) table_attribs"

text \<open>The values of a column for \<^verbatim>\<open>pd.concat\<close>: a frame without the column
  contributes one missing value per row.\<close>

definition colvals :: "'f frame \<Rightarrow> string \<Rightarrow> 'f cell list" where
  "colvals fr c = (case map_of fr c of Some vs \<Rightarrow> vs | None \<Rightarrow> replicate (nrows fr) Missing)"

text \<open>\<^verbatim>\<open>pd.concat([df, df1], ignore_index=True)\<close>: the union of the columns, those of
  \<open>df\<close> first, and the rows of \<open>df\<close> followed by those of \<open>df1\<close>.\<close>

definition concat_frames :: "'f frame \<Rightarrow> 'f frame \<Rightarrow> 'f frame" where
  "concat_frames df df1 =
     map (\<lambda>c. (c, colvals df c @ colvals df1 c))
       (map fst df @ filter (\<lambda>c. c \<notin> set (map fst df)) (map fst df1))"

text \<open>\<^verbatim>\<open>df[name]\<close>: the column, or KeyError.\<close>

definition get_col :: "'f frame \<Rightarrow> string \<Rightarrow> error + 'f cell list" where
  "get_col fr c = (case map_of fr c of Some vs \<Rightarrow> Inr vs | None \<Rightarrow> Inl (KeyError c))"

text \<open>\<^verbatim>\<open>df[name] = values\<close>: an existing column is overwritten where it stands, a
  new one is appended after the others.\<close>

fun set_col :: "string \<Rightarrow> 'f cell list \<Rightarrow> 'f frame \<Rightarrow> 'f frame" where
  "set_col c vs [] = [(c, vs)]"
| "set_col c vs (p # ps) = (if fst p = c then (c, vs) # ps else p # set_col c vs ps)"

text \<open>One value of \<^verbatim>\<open>series * rate\<close>: a string cannot be multiplied by a float, a
  missing value stays missing.\<close>

fun mul_cell :: "'f float_ops \<Rightarrow> 'f \<Rightarrow> 'f cell \<Rightarrow> error + 'f cell" where
  "mul_cell ops r (Num x) = Inr (Num (fmul ops x r))"
| "mul_cell ops r (IntC i) = Inr (Num (fmul ops (fofint ops i) r))"
| "mul_cell ops r Missing = Inr Missing"
| "mul_cell ops r (Str s) = Inl (TypeError (''can'' @ apos @ ''t multiply sequence by non-int of type '' @ apos @ ''float'' @ apos))"

fun mul_series :: "'f float_ops \<Rightarrow> 'f \<Rightarrow> 'f cell list \<Rightarrow> error + 'f cell list" where
  "mul_series ops r [] = Inr []"
| "mul_series ops r (v # vs) =
     (case mul_cell ops r v of
        Inl e \<Rightarrow> Inl e
      | Inr v' \<Rightarrow> (case mul_series ops r vs of Inl e \<Rightarrow> Inl e | Inr vs' \<Rightarrow> Inr (v' # vs')))"

text \<open>One value of \<^verbatim>\<open>series.round(2)\<close>, on the float series a product is.\<close>

fun round_cell :: "'f float_ops \<Rightarrow> 'f cell \<Rightarrow> 'f cell" where
  "round_cell ops (Num x) = Num (fround2 ops x)"
| "round_cell ops c = c"


section \<open>The world the script runs in\<close>

text \<open>
  Everything outside the script is a field of the state: the log file and whether
  opening it fails, the page each URL parses to, the exchange-rate table each CSV path
  reads as (the Rate column indexed by Currency), the data frames as objects (a frame
  is named by its position in \<open>heap\<close>, so that two names of one frame see the same
  updates), the CSV files written, the connections opened (True while open), the tables
  of the database, what was printed, and the two names of the script that a later
  statement reads although the statement binding them may not have run (None while
  unbound). The \<open>_fault\<close> fields say which external
  operations fail and with what; they do not change during a run. \<open>timestamp\<close>
  is what \<^verbatim>\<open>datetime.now().strftime(timestamp_format)\<close> gives.
\<close>

datatype query =
    SelectAll string
  | SelectAllLimit string nat
  | SelectAvg string string string
  | SelectColLimit string string nat
  | CountRows string

datatype 'f printed = PStr string | PFrame "'f frame" | PStrCell string "'f cell"

record 'f world =
  timestamp :: string
  log_fault :: "error option"
  log_read_fault :: "error option"
  log_lines :: "string list"
  web :: "string \<Rightarrow> error + node"
  rate_files :: "string \<Rightarrow> error + (string \<Rightarrow> 'f option)"
  heap :: "'f frame list"
  csv_fault :: "string \<Rightarrow> error option"
  csv_files :: "string \<Rightarrow> 'f frame option"
  connect_fault :: "error option"
  conns :: "bool list"
  to_sql_fault :: "string \<Rightarrow> error option"
  query_fault :: "query \<Rightarrow> error option"
  db :: "string \<Rightarrow> 'f frame option"
  stdout :: "'f printed list"
  df_transformed :: "nat option"
  sql_connection :: "nat option"

text \<open>A statement either returns a value or raises, and leaves a new state.\<close>

type_synonym ('a, 'f) prog = "'f world \<Rightarrow> (error + 'a) \<times> 'f world"

definition ret :: "'a \<Rightarrow> ('a, 'f) prog" where
  "ret x w = (Inr x, w)"

definition raise :: "error \<Rightarrow> ('a, 'f) prog" where
  "raise e w = (Inl e, w)"

definition lift :: "error + 'a \<Rightarrow> ('a, 'f) prog" where
  "lift r w = (r, w)"

text \<open>Sequencing: an exception in the first statement skips the rest.\<close>

definition bind :: "('a, 'f) prog \<Rightarrow> ('a \<Rightarrow> ('b, 'f) prog) \<Rightarrow> ('b, 'f) prog" where
  "bind m k w = (case m w of (Inl e, w') \<Rightarrow> (Inl e, w') | (Inr x, w') \<Rightarrow> k x w')"

text \<open>\<^verbatim>\<open>try: m  except Exception as e: h e\<close>.\<close>

definition try_except :: "('a, 'f) prog \<Rightarrow> (error \<Rightarrow> ('a, 'f) prog) \<Rightarrow> ('a, 'f) prog" where
  "try_except m h w = (case m w of (Inl e, w') \<Rightarrow> h e w' | (Inr x, w') \<Rightarrow> (Inr x, w'))"

text \<open>\<^verbatim>\<open>try: m  finally: f\<close>: \<open>f\<close> always runs; an exception of \<open>f\<close> replaces the
  outcome of \<open>m\<close>, otherwise the outcome of \<open>m\<close> stands.\<close>

definition try_finally :: "('a, 'f) prog \<Rightarrow> (unit, 'f) prog \<Rightarrow> ('a, 'f) prog" where
  "try_finally m f w =
     (case m w of (r, w') \<Rightarrow> (case f w' of (Inl e, w'') \<Rightarrow> (Inl e, w'') | (Inr u, w'') \<Rightarrow> (r, w'')))"

section \<open>The logger\<close>

text \<open>
  \<^verbatim>\<open>with open(log_file, "a") as f: f.write(timestamp + " : " + message + "\n")\<close>.
  The function has no handler: when the file cannot be opened or written the
  exception leaves \<open>log_progress\<close>.
\<close>

definition log_progress :: "string \<Rightarrow> (unit, 'f) prog" where
  "log_progress message w =
     (case log_fault w of
        Some e \<Rightarrow> (Inl e, w)
      | None \<Rightarrow>
          (Inr (), w\<lparr>log_lines := log_lines w @ [timestamp w @ '' : '' @ message @ [CHR 0x0A]]\<rparr>))"

section \<open>Extraction\<close>

text \<open>The dictionary literal of one row, its two entries evaluated in order.\<close>

definition data_dict :: "'f float_ops \<Rightarrow> node list \<Rightarrow> error + (string \<times> 'f)" where
  "data_dict ops col =
     and_then (index col 1) (\<lambda>c1.
     and_then (index (find_all ''a'' c1) 1) (\<lambda>a.
     and_then (attr a ''title'') (\<lambda>name.
     and_then (index col 2) (\<lambda>c2.
     and_then (index (contents c2) 0) (\<lambda>n.
     and_then (drop_last n) (\<lambda>s.
     (case fparse ops s of
        None \<Rightarrow> Inl (ValueError (''could not convert string to float: '' @ apos @ s @ apos))
      | Some x \<Rightarrow> Inr (name, x))))))))"

text \<open>The loop over the rows: a row without data cells is skipped, any other row
  adds one record at the end of the frame, and the first error ends the loop.\<close>

fun extract_rows :: "'f float_ops \<Rightarrow> node list \<Rightarrow> 'f frame \<Rightarrow> error + 'f frame" where
  "extract_rows ops [] df = Inr df"
| "extract_rows ops (row # rows) df =
     (let col = find_all ''td'' row in
      if length col \<noteq> 0 then
        (case data_dict ops col of
           Inl e \<Rightarrow> Inl e
         | Inr (name, x) \<Rightarrow>
             extract_rows ops rows
               (concat_frames df [(''Name'', [Str name]), (''MC_USD_Billion'', [Num x])]))
      else extract_rows ops rows df)"

text \<open>A new object: the frame is stored and its position returned.\<close>

definition new_frame :: "'f frame \<Rightarrow> (nat, 'f) prog" where
  "new_frame fr w = (Inr (length (heap w)), w\<lparr>heap := heap w @ [fr]\<rparr>)"

definition "extract" :: "'f float_ops \<Rightarrow> string \<Rightarrow> string list \<Rightarrow> (nat, 'f) prog" where
  "extract ops url table_attribs =
     bind (log_progress ''Starting data extraction'') (\<lambda>_.
     bind (\<lambda>w. (web w url, w)) (\<lambda>soup.
     bind (lift (index (find_all ''tbody'' soup) 0)) (\<lambda>table.
     bind (lift (extract_rows ops (find_all ''tr'' table) (DataFrame table_attribs))) (\<lambda>df.
     bind (log_progress ''Data extraction complete'') (\<lambda>_.
     new_frame df)))))"

section \<open>Transformation\<close>

text \<open>The frame an object name stands for, and the update of that object.\<close>

definition deref :: "nat \<Rightarrow> ('f frame, 'f) prog" where
  "deref df w =
     (if df < length (heap w) then (Inr (heap w ! df), w)
      else (Inl (TypeError ''object is not subscriptable''), w))"

definition store :: "nat \<Rightarrow> 'f frame \<Rightarrow> (unit, 'f) prog" where
  "store df fr w = (Inr (), w\<lparr>heap := (heap w)[df := fr]\<rparr>)"

text \<open>\<^verbatim>\<open>pd.read_csv(csv_path).set_index("Currency")["Rate"]\<close>.\<close>

definition read_rates :: "string \<Rightarrow> (string \<Rightarrow> 'f option, 'f) prog" where
  "read_rates csv_path w = (rate_files w csv_path, w)"

text \<open>\<^verbatim>\<open>exchange_rate[currency]\<close>: KeyError for a currency the table lacks.\<close>

definition rate_of :: "(string \<Rightarrow> 'f option) \<Rightarrow> string \<Rightarrow> error + 'f" where
  "rate_of exchange_rate currency =
     (case exchange_rate currency of Some r \<Rightarrow> Inr r | None \<Rightarrow> Inl (KeyError currency))"

definition currencies :: "string list" where
  "currencies = [''GBP'', ''EUR'', ''INR'']"

definition mc_column :: "string \<Rightarrow> string" where
  "mc_column currency = ''MC_'' @ currency @ ''_Billion''"

text \<open>The body of the loop, in the order Python evaluates it: the USD column, the
  rate, the product, the rounding, and then the assignment to the frame passed in.\<close>

definition convert_one :: "'f float_ops \<Rightarrow> nat \<Rightarrow> (string \<Rightarrow> 'f option) \<Rightarrow> string \<Rightarrow> (unit, 'f) prog" where
  "convert_one ops df exchange_rate currency =
     bind (deref df) (\<lambda>fr.
     bind (lift (get_col fr ''MC_USD_Billion'')) (\<lambda>usd.
     bind (lift (rate_of exchange_rate currency)) (\<lambda>r.
     bind (lift (mul_series ops r usd)) (\<lambda>prod.
     store df (set_col (mc_column currency) (map (round_cell ops) prod) fr)))))"

fun convert_all :: "'f float_ops \<Rightarrow> nat \<Rightarrow> (string \<Rightarrow> 'f option) \<Rightarrow> string list \<Rightarrow> (unit, 'f) prog" where
  "convert_all ops df exchange_rate [] = ret ()"
| "convert_all ops df exchange_rate (currency # cs) =
     bind (convert_one ops df exchange_rate currency) (\<lambda>_. convert_all ops df exchange_rate cs)"

definition transform :: "'f float_ops \<Rightarrow> nat \<Rightarrow> string \<Rightarrow> (nat, 'f) prog" where
  "transform ops df csv_path =
     try_except
       (bind (log_progress ''Starting data transformation'') (\<lambda>_.
        bind (read_rates csv_path) (\<lambda>exchange_rate.
        bind (convert_all ops df exchange_rate currencies) (\<lambda>_.
        bind (log_progress ''Data transformation complete'') (\<lambda>_.
        ret df)))))
       (\<lambda>e. bind (log_progress (''Error during transformation: '' @ str_of e)) (\<lambda>_. raise e))"

section \<open>Loading to CSV\<close>

definition to_csv :: "nat \<Rightarrow> string \<Rightarrow> (unit, 'f) prog" where
  "to_csv df output_path =
     bind (deref df) (\<lambda>fr w.
       case csv_fault w output_path of
         Some e \<Rightarrow> (Inl e, w)
       | None \<Rightarrow> (Inr (), w\<lparr>csv_files := (csv_files w)(output_path := Some fr)\<rparr>))"

definition load_to_csv :: "nat \<Rightarrow> string \<Rightarrow> (unit, 'f) prog" where
  "load_to_csv df output_path =
     try_except
       (bind (log_progress ''Saving data to CSV file'') (\<lambda>_.
        bind (to_csv df output_path) (\<lambda>_.
        log_progress (''Data saved to CSV file: '' @ output_path))))
       (\<lambda>e. bind (log_progress (''Error while saving to CSV: '' @ str_of e)) (\<lambda>_. raise e))"

section \<open>Loading to the database\<close>

definition digit :: "nat \<Rightarrow> char" where
  "digit d = char_of (48 + d)"

fun show_nat :: "nat \<Rightarrow> string" where
  "show_nat n = (if n < 10 then [digit n] else show_nat (n div 10) @ [digit (n mod 10)])"

definition show_int :: "int \<Rightarrow> string" where
  "show_int i = (if i < 0 then ''-'' @ show_nat (nat (- i)) else show_nat (nat i))"

fun show_cell :: "'f float_ops \<Rightarrow> 'f cell \<Rightarrow> string" where
  "show_cell ops (Str s) = s"
| "show_cell ops (Num x) = fshow ops x"
| "show_cell ops (IntC i) = show_int i"
| "show_cell ops Missing = ''nan''"

text \<open>The text of the statements the script sends.\<close>

fun sql_text :: "query \<Rightarrow> string" where
  "sql_text (SelectAll t) = ''SELECT * FROM '' @ t"
| "sql_text (SelectAllLimit t n) = ''SELECT * FROM '' @ t @ '' LIMIT '' @ show_nat n"
| "sql_text (SelectAvg c a t) = ''SELECT AVG('' @ c @ '') AS '' @ a @ '' FROM '' @ t"
| "sql_text (SelectColLimit c t n) = ''SELECT '' @ c @ '' FROM '' @ t @ '' LIMIT '' @ show_nat n"
| "sql_text (CountRows t) = ''SELECT COUNT(*) AS row_count FROM '' @ t"

text \<open>A statement needs a connection that is still open.\<close>

definition check_open :: "nat \<Rightarrow> (unit, 'f) prog" where
  "check_open con w =
     (if con < length (conns w) \<and> conns w ! con then (Inr (), w)
      else (Inl (DatabaseError ''Cannot operate on a closed database.''), w))"

text \<open>\<^verbatim>\<open>df.to_sql(name=table_name, con=sql_connection, if_exists='replace', index=False, ...)\<close>:
  the table of that name becomes the rows of the frame, whatever it held before.\<close>

definition to_sql :: "nat \<Rightarrow> string \<Rightarrow> nat \<Rightarrow> (unit, 'f) prog" where
  "to_sql df table_name con =
     bind (deref df) (\<lambda>fr.
     bind (check_open con) (\<lambda>_ w.
       case to_sql_fault w table_name of
         Some e \<Rightarrow> (Inl e, w)
       | None \<Rightarrow> (Inr (), w\<lparr>db := (db w)(table_name := Some fr)\<rparr>)))"

text \<open>What the engine answers: a missing value is NULL and does not count for an
  average, an average over no value is NULL, text is read as a number.\<close>

fun sql_number :: "'f float_ops \<Rightarrow> 'f cell \<Rightarrow> 'f list" where
  "sql_number ops (Num x) = [x]"
| "sql_number ops (IntC i) = [fofint ops i]"
| "sql_number ops (Str s) = [ftext ops s]"
| "sql_number ops Missing = []"

definition sql_avg :: "'f float_ops \<Rightarrow> 'f cell list \<Rightarrow> 'f cell" where
  "sql_avg ops vs =
     (let xs = concat (map (sql_number ops) vs) in if xs = [] then Missing else Num (favg ops xs))"

definition table_of :: "(string \<Rightarrow> 'f frame option) \<Rightarrow> string \<Rightarrow> error + 'f frame" where
  "table_of tables t =
     (case tables t of Some fr \<Rightarrow> Inr fr | None \<Rightarrow> Inl (DatabaseError (''no such table: '' @ t)))"

definition column_of :: "'f frame \<Rightarrow> string \<Rightarrow> error + 'f cell list" where
  "column_of fr c =
     (case map_of fr c of Some vs \<Rightarrow> Inr vs | None \<Rightarrow> Inl (DatabaseError (''no such column: '' @ c)))"

fun eval_query :: "'f float_ops \<Rightarrow> (string \<Rightarrow> 'f frame option) \<Rightarrow> query \<Rightarrow> error + 'f frame" where
  "eval_query ops tables (SelectAll t) = table_of tables t"
| "eval_query ops tables (SelectAllLimit t n) =
     (case table_of tables t of Inl e \<Rightarrow> Inl e
      | Inr fr \<Rightarrow> Inr (map (\<lambda>(c, vs). (c, take n vs)) fr))"
| "eval_query ops tables (SelectAvg c a t) =
     (case table_of tables t of Inl e \<Rightarrow> Inl e
      | Inr fr \<Rightarrow> (case column_of fr c of Inl e \<Rightarrow> Inl e | Inr vs \<Rightarrow> Inr [(a, [sql_avg ops vs])]))"
| "eval_query ops tables (SelectColLimit c t n) =
     (case table_of tables t of Inl e \<Rightarrow> Inl e
      | Inr fr \<Rightarrow> (case column_of fr c of Inl e \<Rightarrow> Inl e | Inr vs \<Rightarrow> Inr [(c, take n vs)]))"
| "eval_query ops tables (CountRows t) =
     (case table_of tables t of Inl e \<Rightarrow> Inl e
      | Inr fr \<Rightarrow> Inr [(''row_count'', [IntC (int (nrows fr))])])"

text \<open>\<^verbatim>\<open>pd.read_sql(query, sql_connection)\<close>.\<close>

definition read_sql :: "'f float_ops \<Rightarrow> query \<Rightarrow> nat \<Rightarrow> ('f frame, 'f) prog" where
  "read_sql ops q con =
     bind (check_open con) (\<lambda>_ w.
       case query_fault w q of
         Some e \<Rightarrow> (Inl e, w)
       | None \<Rightarrow> (eval_query ops (db w) q, w))"

text \<open>\<^verbatim>\<open>result.iloc[0,0]\<close>.\<close>

fun iloc00 :: "'f frame \<Rightarrow> error + 'f cell" where
  "iloc00 ((c, v # vs) # cs) = Inr v"
| "iloc00 fr = Inl (IndexError ''single positional indexer is out-of-bounds'')"

definition load_to_db :: "'f float_ops \<Rightarrow> nat \<Rightarrow> nat \<Rightarrow> string \<Rightarrow> (unit, 'f) prog" where
  "load_to_db ops df con table_name =
     try_except
       (bind (log_progress (''Starting to load data to '' @ table_name @ '' table'')) (\<lambda>_.
        bind (to_sql df table_name con) (\<lambda>_.
        bind (log_progress (''Data successfully loaded to '' @ table_name @ '' table'')) (\<lambda>_.
        bind (read_sql ops (CountRows table_name) con) (\<lambda>result.
        bind (lift (iloc00 result)) (\<lambda>n.
        log_progress (''Verified '' @ show_cell ops n @ '' rows loaded to '' @ table_name)))))))
       (\<lambda>e. bind (log_progress (''Error loading data to database: '' @ str_of e)) (\<lambda>_. raise e))"

section \<open>Running queries\<close>

definition print_out :: "'f printed \<Rightarrow> (unit, 'f) prog" where
  "print_out x w = (Inr (), w\<lparr>stdout := stdout w @ [x]\<rparr>)"

definition run_queries :: "'f float_ops \<Rightarrow> query \<Rightarrow> nat \<Rightarrow> ('f frame, 'f) prog" where
  "run_queries ops q con =
     try_except
       (bind (log_progress (''Executing query: '' @ sql_text q)) (\<lambda>_.
        bind (read_sql ops q con) (\<lambda>result.
        bind (print_out (PStr ([CHR 0x0A] @ ''Query: '' @ sql_text q))) (\<lambda>_.
        bind (print_out (PStr ''Result:'')) (\<lambda>_.
        bind (print_out (PFrame result)) (\<lambda>_.
        bind (log_progress ''Query executed successfully'') (\<lambda>_.
        ret result)))))))
       (\<lambda>e. bind (log_progress (''Query failed: '' @ str_of e)) (\<lambda>_.
            bind (print_out (PStr (''Error executing query: '' @ str_of e))) (\<lambda>_.
            raise e)))"

section \<open>The script\<close>

text \<open>The statements outside the functions, in the order of the file.\<close>

definition url :: string where
  "url = ''https://web.archive.org/web/20230908091635/https://en.wikipedia.org/wiki/List_of_largest_banks''"

definition table_attribs :: "string list" where
  "table_attribs = [''Name'', ''MC_USD_Billion'']"

definition output_csv_path :: string where
  "output_csv_path = ''Largest_banks_data.csv''"

definition print_frame :: "nat \<Rightarrow> (unit, 'f) prog" where
  "print_frame df = bind (deref df) (\<lambda>fr. print_out (PFrame fr))"

text \<open>Reading a name that no statement has bound raises NameError.\<close>

definition get_df_transformed :: "(nat, 'f) prog" where
  "get_df_transformed w =
     (case df_transformed w of
        Some d \<Rightarrow> (Inr d, w)
      | None \<Rightarrow> (Inl (NameError (''name '' @ apos @ ''df_transformed'' @ apos @ '' is not defined'')), w))"

definition set_df_transformed :: "nat \<Rightarrow> (unit, 'f) prog" where
  "set_df_transformed d w = (Inr (), w\<lparr>df_transformed := Some d\<rparr>)"

definition set_sql_connection :: "nat \<Rightarrow> (unit, 'f) prog" where
  "set_sql_connection c w = (Inr (), w\<lparr>sql_connection := Some c\<rparr>)"

text \<open>\<^verbatim>\<open>sqlite3.connect('Banks.db')\<close> gives a new open connection; \<^verbatim>\<open>close()\<close>
  closes the one it is called on.\<close>

definition connect :: "(nat, 'f) prog" where
  "connect w =
     (case connect_fault w of
        Some e \<Rightarrow> (Inl e, w)
      | None \<Rightarrow> (Inr (length (conns w)), w\<lparr>conns := conns w @ [True]\<rparr>))"

definition close :: "nat \<Rightarrow> (unit, 'f) prog" where
  "close con w = (Inr (), w\<lparr>conns := (conns w)[con := False]\<rparr>)"

text \<open>\<^verbatim>\<open>series.iloc[i]\<close>.\<close>

definition iloc :: "'a list \<Rightarrow> nat \<Rightarrow> error + 'a" where
  "iloc xs i =
     (if i < length xs then Inr (xs ! i)
      else Inl (IndexError ''single positional indexer is out-of-bounds''))"

text \<open>Lines 87 to 92: the transformation, in a try block that prints the error.\<close>

definition apply_transformation :: "'f float_ops \<Rightarrow> nat \<Rightarrow> (unit, 'f) prog" where
  "apply_transformation ops df_extracted =
     try_except
       (bind (transform ops df_extracted ''exchange_rate.csv'') (\<lambda>d.
        bind (set_df_transformed d) (\<lambda>_.
        bind (print_frame d) (\<lambda>_.
        bind (deref d) (\<lambda>fr.
        bind (lift (get_col fr ''MC_EUR_Billion'')) (\<lambda>eur.
        bind (lift (iloc eur 4)) (\<lambda>v.
        print_out (PStrCell ([CHR 0x0A] @ ''5th bank EUR value:'') v))))))))
       (\<lambda>e. print_out (PStr (''Error during transformation: '' @ str_of e)))"

text \<open>Line 111: the CSV file, outside any try block.\<close>

definition save_csv :: "(unit, 'f) prog" where
  "save_csv = bind get_df_transformed (\<lambda>d. load_to_csv d output_csv_path)"

text \<open>Lines 150 to 177: the database load, with its handler and its finally block.\<close>

definition database_loading :: "'f float_ops \<Rightarrow> (unit, 'f) prog" where
  "database_loading ops =
     try_finally
       (try_except
          (bind (log_progress ''Initiating SQLite database connection'') (\<lambda>_.
           bind connect (\<lambda>c.
           bind (set_sql_connection c) (\<lambda>_.
           bind (log_progress ''Successfully connected to Banks.db'') (\<lambda>_.
           bind get_df_transformed (\<lambda>d.
           bind (load_to_db ops d c ''Largest_banks'') (\<lambda>_.
           bind (read_sql ops (SelectAllLimit ''Largest_banks'' 5) c) (\<lambda>sample_data.
           bind (print_out (PStr ([CHR 0x0A] @ ''Sample data from database:''))) (\<lambda>_.
           bind (print_out (PFrame sample_data)) (\<lambda>_.
           log_progress ''Database operations completed successfully''))))))))))
          (\<lambda>e. bind (log_progress (''Database operation failed: '' @ str_of e)) (\<lambda>_.
               print_out (PStr (''Error: '' @ str_of e)))))
       (\<lambda>w. case sql_connection w of
              None \<Rightarrow> (Inr (), w)
            | Some c \<Rightarrow>
                bind (close c) (\<lambda>_.
                bind (log_progress ''Database connection closed'') (\<lambda>_.
                print_out (PStr ''Database connection closed''))) w)"

text \<open>Lines 207 to 231: the three queries; the handler only writes to the log.\<close>

definition query1 :: query where
  "query1 = SelectAll ''Largest_banks''"

definition query2 :: query where
  "query2 = SelectAvg ''MC_GBP_Billion'' ''Avg_MC_GBP_Billion'' ''Largest_banks''"

definition query3 :: query where
  "query3 = SelectColLimit ''Name'' ''Largest_banks'' 5"

definition database_queries :: "'f float_ops \<Rightarrow> (unit, 'f) prog" where
  "database_queries ops =
     try_finally
       (try_except
          (bind (log_progress ''Reconnecting to database for queries'') (\<lambda>_.
           bind connect (\<lambda>c.
           bind (set_sql_connection c) (\<lambda>_.
           bind (run_queries ops query1 c) (\<lambda>_.
           bind (run_queries ops query2 c) (\<lambda>_.
           bind (run_queries ops query3 c) (\<lambda>_.
           log_progress ''All queries executed'')))))))
          (\<lambda>e. log_progress (''Database query error: '' @ str_of e)))
       (\<lambda>w. case sql_connection w of
              None \<Rightarrow> (Inr (), w)
            | Some c \<Rightarrow>
                bind (close c) (\<lambda>_. log_progress ''Database connection closed'') w)"

text \<open>Lines 234 to 236: the log is read back and printed.\<close>

definition verify_log :: "(unit, 'f) prog" where
  "verify_log w =
     (case log_read_fault w of
        Some e \<Rightarrow> (Inl e, w)
      | None \<Rightarrow> print_out (PStr (concat (log_lines w))) w)"

text \<open>The whole run. \<open>Inl e\<close> is the script ending on the uncaught exception \<open>e\<close>.\<close>

definition script :: "'f float_ops \<Rightarrow> (unit, 'f) prog" where
  "script ops =
     bind (extract ops url table_attribs) (\<lambda>df_extracted.
     bind (print_frame df_extracted) (\<lambda>_.
     bind (apply_transformation ops df_extracted) (\<lambda>_.
     bind save_csv (\<lambda>_.
     bind (database_loading ops) (\<lambda>_.
     bind (database_queries ops) (\<lambda>_.
     verify_log))))))"

section \<open>Exact arithmetic, for running the model\<close>

text \<open>
  One choice of the float operations, on the rationals: exact products, rounding of
  the hundredths to the nearest integer with ties to the even one, decimal literals
  of digits with at most one point, and the arithmetic mean. It serves to run the
  definitions on concrete inputs; on the inputs used below the products and their
  roundings are the values the 64-bit operations give as well.
\<close>

definition exact_round2 :: "rat \<Rightarrow> rat" where
  "exact_round2 x =
     (let y = x * 100; n = \<lfloor>y\<rfloor>; d = y - of_int n
      in of_int (if d < 1 / 2 then n else if 1 / 2 < d then n + 1 else if even n then n else n + 1) / 100)"

fun digits_val :: "string \<Rightarrow> nat \<Rightarrow> nat option" where
  "digits_val [] acc = Some acc"
| "digits_val (c # cs) acc =
     (if 48 \<le> (of_char c :: nat) \<and> (of_char c :: nat) \<le> 57
      then digits_val cs (10 * acc + (of_char c - 48)) else None)"

definition exact_parse :: "string \<Rightarrow> rat option" where
  "exact_parse s =
     (let a = takeWhile (\<lambda>c. c \<noteq> CHR ''.'') s; b = dropWhile (\<lambda>c. c \<noteq> CHR ''.'') s in
      if a = [] then None
      else case digits_val a 0 of
             None \<Rightarrow> None
           | Some n \<Rightarrow>
               (case b of
                  [] \<Rightarrow> Some (of_nat n)
                | p # ds \<Rightarrow>
                    (case digits_val ds 0 of
                       None \<Rightarrow> None
                     | Some m \<Rightarrow> Some (of_nat n + of_nat m / 10 ^ length ds))))"

definition exact_ops :: "rat float_ops" where
  "exact_ops =
     \<lparr>fmul = (\<lambda>x y. x * y),
      fround2 = exact_round2,
      fparse = exact_parse,
      fofint = of_int,
      ftext = (\<lambda>s. case exact_parse s of Some x \<Rightarrow> x | None \<Rightarrow> 0),
      favg = (\<lambda>xs. sum_list xs / of_nat (length xs)),
      fshow = (\<lambda>x. show_int \<lfloor>x * 100\<rfloor> @ ''e-2'')\<rparr>"

section \<open>Notions used in the statements\<close>

text \<open>The line \<open>log_progress\<close> writes for a message.\<close>

definition log_line :: "'f world \<Rightarrow> string \<Rightarrow> string" where
  "log_line w m = timestamp w @ '' : '' @ m @ [CHR 0x0A]"

text \<open>The column a rate derives from the USD values: each product, rounded.\<close>

definition converted :: "'f float_ops \<Rightarrow> 'f \<Rightarrow> 'f list \<Rightarrow> 'f cell list" where
  "converted ops r usd = map (\<lambda>x. Num (fround2 ops (fmul ops x r))) usd"

text \<open>The frame after the conversion loop over a list of currencies: the columns of
  the currencies that have a rate, up to the first currency that has none.\<close>

fun enrich :: "'f float_ops \<Rightarrow> (string \<Rightarrow> 'f option) \<Rightarrow> 'f list \<Rightarrow> string list \<Rightarrow> 'f frame \<Rightarrow> 'f frame" where
  "enrich ops rates usd [] fr = fr"
| "enrich ops rates usd (c # cs) fr =
     (case rates c of
        None \<Rightarrow> fr
      | Some r \<Rightarrow> enrich ops rates usd cs (set_col (mc_column c) (converted ops r usd) fr))"

text \<open>The rows of a table body that have data cells, and what the dictionary literal
  of the loop evaluates to on a row.\<close>

definition data_rows :: "node list \<Rightarrow> node list" where
  "data_rows rows = filter (\<lambda>row. find_all ''td'' row \<noteq> []) rows"

definition row_record :: "'f float_ops \<Rightarrow> node \<Rightarrow> error + (string \<times> 'f)" where
  "row_record ops row = data_dict ops (find_all ''td'' row)"

text \<open>The rows of the first table body of a page (none when the page has no table
  body). A list of rows is valid when the dictionary literal has a value on each of its
  rows with data cells; a page is valid markup when it has a table body whose rows are
  valid.\<close>

definition table_rows :: "node \<Rightarrow> node list" where
  "table_rows soup = (case find_all ''tbody'' soup of [] \<Rightarrow> [] | table # others \<Rightarrow> find_all ''tr'' table)"

definition valid_rows :: "'f float_ops \<Rightarrow> node list \<Rightarrow> bool" where
  "valid_rows ops rows = list_all (\<lambda>row. \<not> isl (row_record ops row)) (data_rows rows)"

definition valid_markup :: "'f float_ops \<Rightarrow> node \<Rightarrow> bool" where
  "valid_markup ops soup = (find_all ''tbody'' soup \<noteq> [] \<and> valid_rows ops (table_rows soup))"

text \<open>The frame with one more record, as the loop body builds it.\<close>

definition add_record :: "'f frame \<Rightarrow> string \<times> 'f \<Rightarrow> 'f frame" where
  "add_record fr rec =
     concat_frames fr [(''Name'', [Str (fst rec)]), (''MC_USD_Billion'', [Num (snd rec)])]"

text \<open>The records of a frame, in row order: the Name and MC_USD_Billion of each row.\<close>

definition bank_records :: "'f frame \<Rightarrow> ('f cell \<times> 'f cell) list" where
  "bank_records fr = zip (colvals fr ''Name'') (colvals fr ''MC_USD_Billion'')"

text \<open>All columns of a frame have one value per row.\<close>

definition well_formed :: "'f frame \<Rightarrow> bool" where
  "well_formed fr = list_all (\<lambda>p. length (snd p) = nrows fr) fr"

section \<open>A page of three banks\<close>

text \<open>
  A page shaped like the archived one: a header row of \<open>th\<close> cells, then one row per
  bank whose second cell holds a flag link inside a \<open>span\<close> followed by the link of
  the bank, and whose third cell holds the market capitalisation followed by a newline.
  The world around it has the three exchange rates, nothing stored yet and no fault.
\<close>

definition bank_row :: "string \<Rightarrow> string \<Rightarrow> node" where
  "bank_row name cap =
     Elem ''tr'' []
       [Elem ''td'' [] [Text ''1''],
        Elem ''td'' []
          [Elem ''span'' [(''class'', ''flagicon'')] [Elem ''a'' [(''title'', ''Country'')] []],
           Elem ''a'' [(''href'', ''/wiki/x''), (''title'', name)] [Text name]],
        Elem ''td'' [] [Text (cap @ [CHR 0x0A])]]"

definition example_page :: node where
  "example_page =
     Elem ''[document]'' []
       [Elem ''table'' []
          [Elem ''tbody'' []
             [Elem ''tr'' [] [Elem ''th'' [] [Text ''Rank''], Elem ''th'' [] [Text ''Bank name'']],
              bank_row ''Bank A'' ''100.0'',
              bank_row ''Bank B'' ''50.0'',
              bank_row ''Bank C'' ''10.0'']]]"

definition example_rates :: "string \<Rightarrow> rat option" where
  "example_rates = [''GBP'' \<mapsto> 8 / 10, ''EUR'' \<mapsto> 93 / 100, ''INR'' \<mapsto> 825 / 10]"

definition example_world :: "rat world" where
  "example_world =
     \<lparr>timestamp = ''2023-Sep-08-09:16:35'', log_fault = None, log_read_fault = None,
      log_lines = [],
      web = (\<lambda>u. if u = url then Inr example_page else Inl (RequestError ''connection failed'')),
      rate_files = (\<lambda>p. if p = ''exchange_rate.csv'' then Inr example_rates
                          else Inl (OSError ''No such file or directory'')),
      heap = [], csv_fault = (\<lambda>p. None), csv_files = (\<lambda>p. None),
      connect_fault = None, conns = [], to_sql_fault = (\<lambda>t. None),
      query_fault = (\<lambda>q. None), db = (\<lambda>t. None), stdout = [],
      df_transformed = None, sql_connection = None\<rparr>"

text \<open>The three extracted records as a frame object, before any transformation.\<close>

definition example_frame :: "rat frame" where
  "example_frame =
     [(''Name'', [Str ''Bank A'', Str ''Bank B'', Str ''Bank C'']),
      (''MC_USD_Billion'', [Num 100, Num 50, Num 10])]"

definition extracted_world :: "rat world" where
  "extracted_world = example_world\<lparr>heap := [example_frame]\<rparr>"

text \<open>The same records with an exchange-rate table that holds GBP only.\<close>

definition gbp_only_world :: "rat world" where
  "gbp_only_world = extracted_world\<lparr>rate_files := (\<lambda>p. Inr [''GBP'' \<mapsto> 8 / 10])\<rparr>"



text \<open>The extracted records with an open connection to the database.\<close>

definition connected_world :: "rat world" where
  "connected_world = extracted_world\<lparr>conns := [True]\<rparr>"


definition offline_world :: "rat world" where
  "offline_world = example_world\<lparr>web := (\<lambda>u. Inl (RequestError ''connection failed''))\<rparr>"

definition missing_rate_world :: "rat world" where
  "missing_rate_world = example_world\<lparr>rate_files := (\<lambda>p. Inr [''GBP'' \<mapsto> 8 / 10])\<rparr>"

definition read_only_world :: "rat world" where
  "read_only_world = example_world\<lparr>csv_fault := (\<lambda>p. Some (OSError ''Permission denied''))\<rparr>"

text \<open>The three records after the transformation with the three rates.\<close>

definition enriched_frame :: "rat frame" where
  "enriched_frame =
     [(''Name'', [Str ''Bank A'', Str ''Bank B'', Str ''Bank C'']),
      (''MC_USD_Billion'', [Num 100, Num 50, Num 10]),
      (''MC_GBP_Billion'', [Num 80, Num 40, Num 8]),
      (''MC_EUR_Billion'', [Num 93, Num (93 / 2), Num (93 / 10)]),
      (''MC_INR_Billion'', [Num 8250, Num 4125, Num 825])]"

section \<open>Properties of the transformation\<close>

lemma map_of_set_col: "map_of (set_col c vs fr) = (map_of fr)(c \<mapsto> vs)"
  by (induction fr) (auto simp: fun_upd_twist)

lemma mul_series_Num:
  "mul_series ops r (map Num xs) = Inr (map (\<lambda>x. Num (fmul ops x r)) xs)"
  by (induction xs) simp_all

lemma convert_one_ok:
  assumes "df < length (heap w)"
    and "map_of (heap w ! df) ''MC_USD_Billion'' = Some (map Num usd)"
    and "rates c = Some r"
  shows "convert_one ops df rates c w =
           (Inr (), w\<lparr>heap := (heap w)[df := set_col (mc_column c) (converted ops r usd) (heap w ! df)]\<rparr>)"
  using assms
  by (simp add: convert_one_def bind_def deref_def lift_def get_col_def rate_of_def
      mul_series_Num store_def converted_def comp_def)

lemma convert_one_missing:
  assumes "df < length (heap w)"
    and "map_of (heap w ! df) ''MC_USD_Billion'' = Some (map Num usd)"
    and "rates c = None"
  shows "convert_one ops df rates c w = (Inl (KeyError c), w)"
  using assms
  by (simp add: convert_one_def bind_def deref_def lift_def get_col_def rate_of_def)

lemma mc_column_USD: "mc_column c = ''MC_USD_Billion'' \<Longrightarrow> c = ''USD''"
proof -
  assume "mc_column c = ''MC_USD_Billion''"
  then have "c @ ''_Billion'' = ''USD'' @ ''_Billion''"
    by (simp add: mc_column_def)
  then show ?thesis
    by (simp only: append_same_eq)
qed

lemma convert_all_result:
  assumes "df < length (heap w)"
    and "map_of (heap w ! df) ''MC_USD_Billion'' = Some (map Num usd)"
    and "''USD'' \<notin> set cs"
  shows "convert_all ops df rates cs w =
           ((case find (\<lambda>c. rates c = None) cs of None \<Rightarrow> Inr () | Some c \<Rightarrow> Inl (KeyError c)),
            w\<lparr>heap := (heap w)[df := enrich ops rates usd cs (heap w ! df)]\<rparr>)"
  using assms
proof (induction cs arbitrary: w)
  case Nil
  then show ?case by (simp add: ret_def)
next
  case (Cons c cs)
  show ?case
  proof (cases "rates c")
    case None
    with Cons.prems show ?thesis
      by (simp add: bind_def convert_one_missing)
  next
    case (Some r)
    let ?fr = "set_col (mc_column c) (converted ops r usd) (heap w ! df)"
    let ?w = "w\<lparr>heap := (heap w)[df := ?fr]\<rparr>"
    have step: "convert_one ops df rates c w = (Inr (), ?w)"
      using Cons.prems Some by (simp add: convert_one_ok)
    have neq: "mc_column c \<noteq> ''MC_USD_Billion''"
      using Cons.prems(3) mc_column_USD by auto
    have pre: "df < length (heap ?w)" "map_of (heap ?w ! df) ''MC_USD_Billion'' = Some (map Num usd)"
      "''USD'' \<notin> set cs"
      using Cons.prems neq by (simp_all add: map_of_set_col)
    show ?thesis
      using Cons.IH [OF pre] Cons.prems(1) Some step
      by (simp add: bind_def)
  qed
qed

lemma transform_result:
  assumes "df < length (heap w)"
    and "map_of (heap w ! df) ''MC_USD_Billion'' = Some (map Num usd)"
    and "log_fault w = None"
    and "rate_files w csv_path = Inr rates"
  shows "transform ops df csv_path w =
           (case find (\<lambda>c. rates c = None) currencies of
              None \<Rightarrow>
                (Inr df,
                 w\<lparr>heap := (heap w)[df := enrich ops rates usd currencies (heap w ! df)],
                   log_lines := log_lines w @
                     [log_line w ''Starting data transformation'',
                      log_line w ''Data transformation complete'']\<rparr>)
            | Some c \<Rightarrow>
                (Inl (KeyError c),
                 w\<lparr>heap := (heap w)[df := enrich ops rates usd currencies (heap w ! df)],
                   log_lines := log_lines w @
                     [log_line w ''Starting data transformation'',
                      log_line w (''Error during transformation: '' @ apos @ c @ apos)]\<rparr>))"
proof -
  let ?w1 = "w\<lparr>log_lines := log_lines w @ [log_line w ''Starting data transformation'']\<rparr>"
  have usd: "''USD'' \<notin> set currencies"
    by (simp add: currencies_def)
  have pre: "df < length (heap ?w1)" "map_of (heap ?w1 ! df) ''MC_USD_Billion'' = Some (map Num usd)"
    using assms by simp_all
  note loop = convert_all_result [OF pre usd, of ops rates]
  show ?thesis
    using assms loop
    by (simp add: transform_def try_except_def bind_def log_progress_def read_rates_def
        ret_def raise_def log_line_def split: option.splits)
qed

section \<open>Properties of the extraction\<close>

lemma extract_rows_ok:
  "list_all2 (\<lambda>row rec. row_record ops row = Inr rec) (data_rows rows) recs \<Longrightarrow>
   extract_rows ops rows df = Inr (foldl add_record df recs)"
proof (induction rows arbitrary: df recs)
  case Nil
  then show ?case by (simp add: data_rows_def)
next
  case (Cons row rows)
  show ?case
  proof (cases "find_all ''td'' row = []")
    case True
    with Cons show ?thesis by (simp add: data_rows_def)
  next
    case False
    with Cons.prems obtain rec recs' where recs: "recs = rec # recs'"
      and rec: "row_record ops row = Inr rec"
      and rest: "list_all2 (\<lambda>row rec. row_record ops row = Inr rec) (data_rows rows) recs'"
      by (auto simp: data_rows_def list_all2_Cons1)
    from Cons.IH [OF rest] False rec recs show ?thesis
      by (cases rec) (simp add: row_record_def add_record_def)
  qed
qed


lemma map_of_tabulate:
  "map_of (map (\<lambda>c. (c, f c)) ks) c = (if c \<in> set ks then Some (f c) else None)"
  by (induction ks) auto

lemma map_of_concat_frames:
  "map_of (concat_frames df df1) c =
     (if c \<in> fst ` set df \<union> fst ` set df1 then Some (colvals df c @ colvals df1 c) else None)"
  unfolding concat_frames_def by (simp only: map_of_tabulate) auto

lemma colvals_concat_frames:
  "c \<in> fst ` set df \<union> fst ` set df1 \<Longrightarrow>
   colvals (concat_frames df df1) c = colvals df c @ colvals df1 c"
  by (simp add: colvals_def [of "concat_frames df df1"] map_of_concat_frames)

lemma colvals_add_record_Name:
  "colvals (add_record fr rec) ''Name'' = colvals fr ''Name'' @ [Str (fst rec)]"
  unfolding add_record_def
  by (subst colvals_concat_frames) (simp_all add: colvals_def)

lemma colvals_add_record_MC:
  "colvals (add_record fr rec) ''MC_USD_Billion'' = colvals fr ''MC_USD_Billion'' @ [Num (snd rec)]"
  unfolding add_record_def
  by (subst colvals_concat_frames) (simp_all add: colvals_def)

lemma colvals_foldl_Name:
  "colvals (foldl add_record fr recs) ''Name'' = colvals fr ''Name'' @ map (\<lambda>r. Str (fst r)) recs"
  by (induction recs arbitrary: fr) (simp_all add: colvals_add_record_Name)

lemma colvals_foldl_MC:
  "colvals (foldl add_record fr recs) ''MC_USD_Billion'' =
     colvals fr ''MC_USD_Billion'' @ map (\<lambda>r. Num (snd r)) recs"
  by (induction recs arbitrary: fr) (simp_all add: colvals_add_record_MC)

lemma nrows_DataFrame: "nrows (DataFrame attribs) = 0"
  by (cases attribs) (simp_all add: nrows_def DataFrame_def)

lemma colvals_DataFrame: "colvals (DataFrame attribs) c = []"
  by (simp add: colvals_def nrows_DataFrame split: option.splits)
     (simp add: DataFrame_def map_of_tabulate split: if_splits)

lemma length_colvals: "well_formed fr \<Longrightarrow> length (colvals fr c) = nrows fr"
  by (auto simp: colvals_def well_formed_def list_all_iff split: option.splits dest!: map_of_SomeD)

lemma nrows_tabulate: "ks \<noteq> [] \<Longrightarrow> nrows (map (\<lambda>c. (c, g c)) ks) = length (g (hd ks))"
  by (cases ks) (simp_all add: nrows_def)

lemma length_colvals_new:
  "length (colvals [(''Name'', [a]), (''MC_USD_Billion'', [b])] c) = 1"
  by (simp add: colvals_def nrows_def)

lemma add_record_well_formed:
  assumes "well_formed fr"
  shows "well_formed (add_record fr rec) \<and> nrows (add_record fr rec) = Suc (nrows fr)"
proof -
  let ?df1 = "[(''Name'', [Str (fst rec)]), (''MC_USD_Billion'', [Num (snd rec)])] :: 'a frame"
  let ?ks = "map fst fr @ filter (\<lambda>c. c \<notin> set (map fst fr)) (map fst ?df1)"
  let ?g = "\<lambda>c. colvals fr c @ colvals ?df1 c"
  have len: "length (?g c) = Suc (nrows fr)" for c
    using assms by (simp add: length_colvals length_colvals_new del: colvals_def)
  have ne: "?ks \<noteq> []"
    by (cases fr) simp_all
  have n: "nrows (map (\<lambda>c. (c, ?g c)) ?ks) = Suc (nrows fr)"
    using nrows_tabulate [OF ne, of ?g] len by simp
  have "well_formed (map (\<lambda>c. (c, ?g c)) ?ks)"
    unfolding well_formed_def n list_all_iff using len by auto
  with n show ?thesis
    by (simp add: add_record_def concat_frames_def)
qed

lemma foldl_add_record_well_formed:
  "well_formed fr \<Longrightarrow>
   well_formed (foldl add_record fr recs) \<and> nrows (foldl add_record fr recs) = nrows fr + length recs"
proof (induction recs arbitrary: fr)
  case Nil
  then show ?case by simp
next
  case (Cons r recs)
  from add_record_well_formed [OF Cons.prems, of r] Cons.IH [of "add_record fr r"]
  show ?case by simp
qed

lemma well_formed_DataFrame: "well_formed (DataFrame attribs)"
  by (simp add: well_formed_def nrows_DataFrame) (simp add: DataFrame_def list_all_iff)


lemma extract_result:
  assumes "log_fault w = None"
    and "web w u = Inr soup"
    and "find_all ''tbody'' soup = table # others"
    and "list_all2 (\<lambda>row rec. row_record ops row = Inr rec) (data_rows (find_all ''tr'' table)) recs"
  shows "extract ops u attribs w =
           (Inr (length (heap w)),
            w\<lparr>heap := heap w @ [foldl add_record (DataFrame attribs) recs],
              log_lines := log_lines w @
                [log_line w ''Starting data extraction'', log_line w ''Data extraction complete'']\<rparr>)"
  using assms extract_rows_ok [OF assms(4), of "DataFrame attribs"]
  by (simp add: extract_def bind_def log_progress_def lift_def index_def new_frame_def log_line_def)

lemma valid_rows_records:
  assumes "valid_rows ops rows"
  shows "list_all2 (\<lambda>row rec. row_record ops row = Inr rec) (data_rows rows)
           (map (\<lambda>row. projr (row_record ops row)) (data_rows rows))"
  using assms
  by (auto simp: valid_rows_def list_all2_map2 list_all2_same list_all_iff)


lemma bank_records_foldl:
  "bank_records (foldl add_record (DataFrame attribs) recs) =
     map (\<lambda>rec. (Str (fst rec), Num (snd rec))) recs"
  by (simp add: bank_records_def colvals_foldl_Name colvals_foldl_MC colvals_DataFrame zip_map_map
      zip_same_conv_map)

lemma nrows_foldl:
  "nrows (foldl add_record (DataFrame attribs) recs) = length recs"
  using foldl_add_record_well_formed [OF well_formed_DataFrame, of attribs recs]
  by (simp add: nrows_DataFrame)

section \<open>Properties of the database load\<close>

lemma load_to_db_Inr:
  assumes "load_to_db ops df con t w = (Inr (), w1)"
  shows "log_fault w = None \<and> df < length (heap w) \<and> con < length (conns w) \<and> conns w ! con \<and>
         to_sql_fault w t = None \<and> query_fault w (CountRows t) = None \<and>
         w1 = w\<lparr>db := (db w)(t := Some (heap w ! df)),
                log_lines := log_lines w @
                  [log_line w (''Starting to load data to '' @ t @ '' table''),
                   log_line w (''Data successfully loaded to '' @ t @ '' table''),
                   log_line w (''Verified '' @ show_int (int (nrows (heap w ! df))) @ '' rows loaded to '' @ t)]\<rparr>"
  using assms
  by (auto simp: load_to_db_def try_except_def bind_def log_progress_def to_sql_def deref_def
      check_open_def read_sql_def lift_def raise_def table_of_def log_line_def
      split: option.splits if_splits sum.splits prod.splits)

lemma load_to_db_ok:
  assumes "log_fault w = None" "df < length (heap w)" "con < length (conns w)" "conns w ! con"
    "to_sql_fault w t = None" "query_fault w (CountRows t) = None"
  shows "load_to_db ops df con t w =
     (Inr (), w\<lparr>db := (db w)(t := Some (heap w ! df)),
                log_lines := log_lines w @
                  [log_line w (''Starting to load data to '' @ t @ '' table''),
                   log_line w (''Data successfully loaded to '' @ t @ '' table''),
                   log_line w (''Verified '' @ show_int (int (nrows (heap w ! df))) @ '' rows loaded to '' @ t)]\<rparr>)"
  using assms
  by (simp add: load_to_db_def try_except_def bind_def log_progress_def to_sql_def deref_def
      check_open_def read_sql_def lift_def raise_def table_of_def log_line_def)

section \<open>The run on the page of three banks\<close>

text \<open>What the script prints before it prints the log, and that it ends normally.\<close>

lemma script_example:
  "fst (script exact_ops example_world) = Inr () \<and>
   take 15 (stdout (snd (script exact_ops example_world))) =
     [PFrame example_frame,
      PFrame enriched_frame,
      PStr ''Error during transformation: single positional indexer is out-of-bounds'',
      PStr ([CHR 0x0A] @ ''Sample data from database:''),
      PFrame enriched_frame,
      PStr ''Database connection closed'',
      PStr ([CHR 0x0A] @ ''Query: SELECT * FROM Largest_banks''),
      PStr ''Result:'',
      PFrame enriched_frame,
      PStr ([CHR 0x0A] @ ''Query: SELECT AVG(MC_GBP_Billion) AS Avg_MC_GBP_Billion FROM Largest_banks''),
      PStr ''Result:'',
      PFrame [(''Avg_MC_GBP_Billion'', [Num (128 / 3)])],
      PStr ([CHR 0x0A] @ ''Query: SELECT Name FROM Largest_banks LIMIT 5''),
      PStr ''Result:'',
      PFrame [(''Name'', [Str ''Bank A'', Str ''Bank B'', Str ''Bank C''])]]"
  by code_simp

section \<open>The claims\<close>



text \<open>
  C2, as stated, fails: with a table that holds GBP only, \<open>transform\<close> raises the
  KeyError for EUR, and the frame passed in already carries the MC_GBP_Billion column
  of every record.
\<close>

theorem transform_partial_counterexample:
  "fst (transform exact_ops 0 ''exchange_rate.csv'' gbp_only_world) = Inl (KeyError ''EUR'') \<and>
   heap (snd (transform exact_ops 0 ''exchange_rate.csv'' gbp_only_world)) ! 0 =
     [(''Name'', [Str ''Bank A'', Str ''Bank B'', Str ''Bank C'']),
      (''MC_USD_Billion'', [Num 100, Num 50, Num 10]),
      (''MC_GBP_Billion'', [Num 80, Num 40, Num 8])]"
  using transform_result [of 0 gbp_only_world "[100, 50, 10]" "''exchange_rate.csv''"
      "[''GBP'' \<mapsto> 8 / 10]" exact_ops]
  by (simp add: gbp_only_world_def extracted_world_def example_world_def example_frame_def
      currencies_def mc_column_def converted_def exact_ops_def exact_round2_def)

text \<open>
  C2, amended. When the exchange-rate table lacks one of GBP, EUR, INR, \<open>transform\<close>
  raises a LookupError: the KeyError of the first missing currency in that order,
  written to the log before it is raised again. The frame passed in keeps the derived
  columns of the currencies before the missing one: none when GBP is missing, the GBP
  column when EUR is the first missing, the GBP and EUR columns when only INR is
  missing.
\<close>

theorem transform_missing_currency:
  assumes "df < length (heap w)"
    and "map_of (heap w ! df) ''MC_USD_Billion'' = Some (map Num usd)"
    and "log_fault w = None"
    and "rate_files w csv_path = Inr rates"
  shows "(rates ''GBP'' = None \<longrightarrow>
            (\<exists>w'. transform ops df csv_path w = (Inl (KeyError ''GBP''), w') \<and>
               is_LookupError (KeyError ''GBP'') \<and>
               heap w' = heap w \<and>
               last (log_lines w') =
                 log_line w (''Error during transformation: '' @ str_of (KeyError ''GBP'')))) \<and>
         (\<forall>g. rates ''GBP'' = Some g \<and> rates ''EUR'' = None \<longrightarrow>
            (\<exists>w'. transform ops df csv_path w = (Inl (KeyError ''EUR''), w') \<and>
               is_LookupError (KeyError ''EUR'') \<and>
               heap w' = (heap w)[df := set_col ''MC_GBP_Billion'' (converted ops g usd) (heap w ! df)] \<and>
               last (log_lines w') =
                 log_line w (''Error during transformation: '' @ str_of (KeyError ''EUR'')))) \<and>
         (\<forall>g e. rates ''GBP'' = Some g \<and> rates ''EUR'' = Some e \<and> rates ''INR'' = None \<longrightarrow>
            (\<exists>w'. transform ops df csv_path w = (Inl (KeyError ''INR''), w') \<and>
               is_LookupError (KeyError ''INR'') \<and>
               heap w' = (heap w)[df := set_col ''MC_EUR_Billion'' (converted ops e usd)
                            (set_col ''MC_GBP_Billion'' (converted ops g usd) (heap w ! df))] \<and>
               last (log_lines w') =
                 log_line w (''Error during transformation: '' @ str_of (KeyError ''INR''))))"
  using transform_result [OF assms, of ops] assms(1)
  by (simp add: currencies_def mc_column_def)

theorem transform_missing_currency_witness:
  "\<exists>w'. transform exact_ops 0 ''exchange_rate.csv'' gbp_only_world = (Inl (KeyError ''EUR''), w') \<and>
     is_LookupError (KeyError ''EUR'') \<and>
     heap w' =
       [[(''Name'', [Str ''Bank A'', Str ''Bank B'', Str ''Bank C'']),
         (''MC_USD_Billion'', [Num 100, Num 50, Num 10]),
         (''MC_GBP_Billion'', [Num 80, Num 40, Num 8])]] \<and>
     last (log_lines w') =
       ''2023-Sep-08-09:16:35 : Error during transformation: '' @ apos @ ''EUR'' @ apos @ [CHR 0x0A]"
proof -
  have pre: "0 < length (heap gbp_only_world)"
    "map_of (heap gbp_only_world ! 0) ''MC_USD_Billion'' = Some (map Num [100, 50, 10])"
    "log_fault gbp_only_world = None"
    "rate_files gbp_only_world ''exchange_rate.csv'' = Inr [''GBP'' \<mapsto> 8 / 10]"
    by (simp_all add: gbp_only_world_def extracted_world_def example_world_def example_frame_def)
  have rates: "[''GBP'' \<mapsto> 8 / 10 :: rat] ''GBP'' = Some (8 / 10) \<and>
      [''GBP'' \<mapsto> 8 / 10 :: rat] ''EUR'' = None"
    by simp
  from transform_missing_currency [OF pre, of exact_ops, THEN conjunct2, THEN conjunct1,
      rule_format, OF rates]
  show ?thesis
    by (simp add: gbp_only_world_def extracted_world_def example_world_def example_frame_def
        converted_def exact_ops_def exact_round2_def log_line_def)
qed

text \<open>
  C5, as stated, fails: after a successful call the frame that was passed in holds the
  three derived columns; the result is that same object, and no other frame exists.
\<close>

theorem transform_mutates_input_counterexample:
  "heap extracted_world ! 0 =
     [(''Name'', [Str ''Bank A'', Str ''Bank B'', Str ''Bank C'']),
      (''MC_USD_Billion'', [Num 100, Num 50, Num 10])] \<and>
   fst (transform exact_ops 0 ''exchange_rate.csv'' extracted_world) = Inr 0 \<and>
   heap (snd (transform exact_ops 0 ''exchange_rate.csv'' extracted_world)) =
     [[(''Name'', [Str ''Bank A'', Str ''Bank B'', Str ''Bank C'']),
       (''MC_USD_Billion'', [Num 100, Num 50, Num 10]),
       (''MC_GBP_Billion'', [Num 80, Num 40, Num 8]),
       (''MC_EUR_Billion'', [Num 93, Num (93 / 2), Num (93 / 10)]),
       (''MC_INR_Billion'', [Num 8250, Num 4125, Num 825])]]"
  using transform_result [of 0 extracted_world "[100, 50, 10]" "''exchange_rate.csv''"
      example_rates exact_ops]
  by (simp add: extracted_world_def example_world_def example_frame_def example_rates_def
      currencies_def mc_column_def converted_def exact_ops_def exact_round2_def)

text \<open>
  C5, amended. With a complete exchange-rate table \<open>transform\<close> updates the frame it
  is given and returns that same object: no frame is created, every other frame is
  unchanged, the frame passed in gains the three derived columns, and all its other
  columns, Name and MC_USD_Billion among them, hold what they held before.
\<close>

theorem transform_updates_in_place:
  assumes "df < length (heap w)"
    and "map_of (heap w ! df) ''MC_USD_Billion'' = Some (map Num usd)"
    and "log_fault w = None"
    and "rate_files w csv_path = Inr rates"
    and "rates ''GBP'' = Some r_gbp"
    and "rates ''EUR'' = Some r_eur"
    and "rates ''INR'' = Some r_inr"
  shows "\<exists>w'. transform ops df csv_path w = (Inr df, w') \<and>
           length (heap w') = length (heap w) \<and>
           (\<forall>r. r \<noteq> df \<longrightarrow> heap w' ! r = heap w ! r) \<and>
           heap w' ! df =
             set_col ''MC_INR_Billion'' (converted ops r_inr usd)
               (set_col ''MC_EUR_Billion'' (converted ops r_eur usd)
                 (set_col ''MC_GBP_Billion'' (converted ops r_gbp usd) (heap w ! df))) \<and>
           (\<forall>c. c \<noteq> ''MC_GBP_Billion'' \<and> c \<noteq> ''MC_EUR_Billion'' \<and> c \<noteq> ''MC_INR_Billion'' \<longrightarrow>
                map_of (heap w' ! df) c = map_of (heap w ! df) c)"
  using transform_result [OF assms(1-4), of ops] assms(1,5-7)
  by (simp add: currencies_def map_of_set_col mc_column_def)

theorem transform_updates_in_place_witness:
  "\<exists>w'. transform exact_ops 0 ''exchange_rate.csv'' extracted_world = (Inr 0, w') \<and>
     length (heap w') = 1 \<and>
     heap w' ! 0 =
       [(''Name'', [Str ''Bank A'', Str ''Bank B'', Str ''Bank C'']),
        (''MC_USD_Billion'', [Num 100, Num 50, Num 10]),
        (''MC_GBP_Billion'', [Num 80, Num 40, Num 8]),
        (''MC_EUR_Billion'', [Num 93, Num (93 / 2), Num (93 / 10)]),
        (''MC_INR_Billion'', [Num 8250, Num 4125, Num 825])] \<and>
     map_of (heap w' ! 0) ''Name'' = Some [Str ''Bank A'', Str ''Bank B'', Str ''Bank C''] \<and>
     map_of (heap w' ! 0) ''MC_USD_Billion'' = Some [Num 100, Num 50, Num 10]"
  using transform_updates_in_place [of 0 extracted_world "[100, 50, 10]" "''exchange_rate.csv''"
      example_rates "8 / 10" "93 / 100" "825 / 10" exact_ops]
  by (auto simp: extracted_world_def example_world_def example_frame_def example_rates_def
      converted_def exact_ops_def exact_round2_def)




text \<open>
  C4. On valid markup \<open>extract\<close> returns a frame with exactly one row per row of
  the first table body that has data cells, rows without data cells being left out, and
  the records of the frame are those of these rows in the order of the page: the k-th
  record is what the k-th such row evaluates to.
\<close>

theorem extract_one_record_per_data_row:
  assumes "log_fault w = None"
    and "web w u = Inr soup"
    and "valid_markup ops soup"
  shows "\<exists>df w'. extract ops u attribs w = (Inr df, w') \<and> df < length (heap w') \<and>
           nrows (heap w' ! df) = length (data_rows (table_rows soup)) \<and>
           list_all2 (\<lambda>row rec. \<exists>name x. row_record ops row = Inr (name, x) \<and> rec = (Str name, Num x))
             (data_rows (table_rows soup)) (bank_records (heap w' ! df))"
proof -
  from assms(3) obtain table others where tb: "find_all ''tbody'' soup = table # others"
    by (cases "find_all ''tbody'' soup") (auto simp: valid_markup_def)
  then have rows: "table_rows soup = find_all ''tr'' table"
    by (simp add: table_rows_def)
  let ?recs = "map (\<lambda>row. projr (row_record ops row)) (data_rows (table_rows soup))"
  have recs: "list_all2 (\<lambda>row rec. row_record ops row = Inr rec) (data_rows (table_rows soup)) ?recs"
    using assms(3) by (simp add: valid_markup_def valid_rows_records)
  have corr: "list_all2 (\<lambda>row rec. \<exists>name x. row_record ops row = Inr (name, x) \<and> rec = (Str name, Num x))
      (data_rows (table_rows soup)) (map (\<lambda>rec. (Str (fst rec), Num (snd rec))) ?recs)"
    using recs by (auto simp: list_all2_conv_all_nth)
  from extract_result [OF assms(1,2) tb, of ops ?recs attribs] recs rows
  have "extract ops u attribs w =
      (Inr (length (heap w)),
       w\<lparr>heap := heap w @ [foldl add_record (DataFrame attribs) ?recs],
         log_lines := log_lines w @
           [log_line w ''Starting data extraction'', log_line w ''Data extraction complete'']\<rparr>)"
    by simp
  with corr show ?thesis
    by (simp add: bank_records_foldl nrows_foldl)
qed

theorem extract_one_record_per_data_row_witness:
  "\<exists>df w'. extract exact_ops url table_attribs example_world = (Inr df, w') \<and>
     df < length (heap w') \<and> nrows (heap w' ! df) = 3 \<and>
     bank_records (heap w' ! df) =
       [(Str ''Bank A'', Num 100), (Str ''Bank B'', Num 50), (Str ''Bank C'', Num 10)]"
proof -
  have rows: "data_rows (table_rows example_page) =
      [bank_row ''Bank A'' ''100.0'', bank_row ''Bank B'' ''50.0'',
       bank_row ''Bank C'' ''10.0'']"
    by (simp add: data_rows_def table_rows_def find_all_def example_page_def bank_row_def)
  have rec: "row_record exact_ops (bank_row name cap) =
      (case exact_parse cap of None \<Rightarrow> Inl (ValueError (''could not convert string to float: '' @ apos @ cap @ apos))
       | Some x \<Rightarrow> Inr (name, x))" for name cap
    by (simp add: row_record_def data_dict_def and_then_def index_def find_all_def bank_row_def
        exact_ops_def)
  have p: "exact_parse ''100.0'' = Some 100" "exact_parse ''50.0'' = Some 50"
    "exact_parse ''10.0'' = Some 10"
    by (simp_all add: exact_parse_def)
  have valid: "valid_markup exact_ops example_page"
    unfolding valid_markup_def valid_rows_def rows
    by (simp add: rec p) (simp add: find_all_def example_page_def)
  have pre: "log_fault example_world = None" "web example_world url = Inr example_page"
    by (simp_all add: example_world_def)
  from extract_one_record_per_data_row [OF pre valid, of table_attribs]
  show ?thesis
    unfolding rows by (auto simp: rec p list_all2_Cons1)
qed

text \<open>
  C6 against the code: when the page cannot be fetched, \<open>extract\<close> raises and the log
  holds the start line only, no line for the error; \<open>extract\<close> has no handler. The
  sibling stage \<open>transform\<close>, on a table without EUR, writes the error to the log
  before raising it again.
\<close>

theorem extract_failure_not_logged:
  "extract exact_ops url table_attribs offline_world =
     (Inl (RequestError ''connection failed''),
      offline_world\<lparr>log_lines := [''2023-Sep-08-09:16:35 : Starting data extraction'' @ [CHR 0x0A]]\<rparr>) \<and>
   transform exact_ops 0 ''exchange_rate.csv'' gbp_only_world =
     (Inl (KeyError ''EUR''),
      gbp_only_world
        \<lparr>heap := [example_frame @ [(''MC_GBP_Billion'', [Num 80, Num 40, Num 8])]],
         log_lines :=
           [''2023-Sep-08-09:16:35 : Starting data transformation'' @ [CHR 0x0A],
            ''2023-Sep-08-09:16:35 : Error during transformation: '' @ apos @ ''EUR'' @ apos @ [CHR 0x0A]]\<rparr>)"
proof -
  have a: "extract exact_ops url table_attribs offline_world =
     (Inl (RequestError ''connection failed''),
      offline_world\<lparr>log_lines := [''2023-Sep-08-09:16:35 : Starting data extraction'' @ [CHR 0x0A]]\<rparr>)"
    by (simp add: extract_def bind_def log_progress_def offline_world_def example_world_def)
  have b: "transform exact_ops 0 ''exchange_rate.csv'' gbp_only_world =
     (Inl (KeyError ''EUR''),
      gbp_only_world
        \<lparr>heap := [example_frame @ [(''MC_GBP_Billion'', [Num 80, Num 40, Num 8])]],
         log_lines :=
           [''2023-Sep-08-09:16:35 : Starting data transformation'' @ [CHR 0x0A],
            ''2023-Sep-08-09:16:35 : Error during transformation: '' @ apos @ ''EUR'' @ apos @ [CHR 0x0A]]\<rparr>)"
    using transform_result [of 0 gbp_only_world "[100, 50, 10]" "''exchange_rate.csv''"
      "[''GBP'' \<mapsto> 8 / 10]" exact_ops]
    by (simp add: gbp_only_world_def extracted_world_def example_world_def example_frame_def
      currencies_def mc_column_def converted_def exact_ops_def exact_round2_def log_line_def)
  from a b show ?thesis by blast
qed

text \<open>
  C7. When a load of a frame into a table succeeds, loading the same frame into the same
  table again succeeds as well and leaves the database as the first load left it: the
  table holds the rows of the frame, and the row count query answers the same.
\<close>

theorem load_to_db_twice:
  assumes "load_to_db ops df con table_name w = (Inr (), w1)"
  shows "\<exists>w2. load_to_db ops df con table_name w1 = (Inr (), w2) \<and>
           db w2 = db w1 \<and>
           db w2 table_name = Some (heap w ! df) \<and>
           eval_query ops (db w2) (CountRows table_name) = eval_query ops (db w1) (CountRows table_name)"
proof -
  note a = load_to_db_Inr [OF assms]
  let ?w1 = "w\<lparr>db := (db w)(table_name := Some (heap w ! df)),
                log_lines := log_lines w @
                  [log_line w (''Starting to load data to '' @ table_name @ '' table''),
                   log_line w (''Data successfully loaded to '' @ table_name @ '' table''),
                   log_line w (''Verified '' @ show_int (int (nrows (heap w ! df))) @ '' rows loaded to '' @ table_name)]\<rparr>"
  from a have w1: "w1 = ?w1" by blast
  have pre: "log_fault ?w1 = None" "df < length (heap ?w1)" "con < length (conns ?w1)" "conns ?w1 ! con"
    "to_sql_fault ?w1 table_name = None" "query_fault ?w1 (CountRows table_name) = None"
    using a by simp_all
  show ?thesis
    unfolding w1 load_to_db_ok [OF pre, of ops] by simp
qed

theorem load_to_db_twice_witness:
  "\<exists>w2. load_to_db exact_ops 0 0 ''Largest_banks''
          (snd (load_to_db exact_ops 0 0 ''Largest_banks'' connected_world)) = (Inr (), w2) \<and>
     db w2 = db (snd (load_to_db exact_ops 0 0 ''Largest_banks'' connected_world)) \<and>
     db w2 ''Largest_banks'' = Some example_frame \<and>
     eval_query exact_ops (db w2) (CountRows ''Largest_banks'') = Inr [(''row_count'', [IntC 3])]"
proof -
  have pre: "log_fault connected_world = None" "0 < length (heap connected_world)"
    "0 < length (conns connected_world)" "conns connected_world ! 0"
    "to_sql_fault connected_world ''Largest_banks'' = None"
    "query_fault connected_world (CountRows ''Largest_banks'') = None"
    by (simp_all add: connected_world_def extracted_world_def example_world_def)
  have once: "load_to_db exact_ops 0 0 ''Largest_banks'' connected_world =
      (Inr (), snd (load_to_db exact_ops 0 0 ''Largest_banks'' connected_world))"
    unfolding load_to_db_ok [OF pre, of exact_ops] by simp
  have h: "heap connected_world ! 0 = example_frame"
    by (simp add: connected_world_def extracted_world_def)
  from load_to_db_twice [OF once] obtain w2 where
    "load_to_db exact_ops 0 0 ''Largest_banks''
          (snd (load_to_db exact_ops 0 0 ''Largest_banks'' connected_world)) = (Inr (), w2)"
    "db w2 = db (snd (load_to_db exact_ops 0 0 ''Largest_banks'' connected_world))"
    "db w2 ''Largest_banks'' = Some (heap connected_world ! 0)"
    by blast
  then show ?thesis
    by (auto simp: h table_of_def example_frame_def nrows_def)
qed




text \<open>
  C9 against the code: the script ends on an uncaught exception when the page cannot be
  fetched (the call of \<open>extract\<close> is outside any try block, nothing is printed), when
  the CSV file cannot be written (the call of \<open>load_to_csv\<close> is outside any try
  block), and when the transformation fails: its error is caught and printed, and the
  next statement reads \<open>df_transformed\<close>, which was never bound.
\<close>

theorem script_crashes:
  "script exact_ops offline_world =
     (Inl (RequestError ''connection failed''),
      offline_world\<lparr>log_lines := [''2023-Sep-08-09:16:35 : Starting data extraction'' @ [CHR 0x0A]]\<rparr>) \<and>
   fst (script exact_ops read_only_world) = Inl (OSError ''Permission denied'') \<and>
   stdout (snd (script exact_ops read_only_world)) =
     [PFrame example_frame, PFrame enriched_frame,
      PStr ''Error during transformation: single positional indexer is out-of-bounds''] \<and>
   fst (script exact_ops missing_rate_world) =
     Inl (NameError (''name '' @ apos @ ''df_transformed'' @ apos @ '' is not defined'')) \<and>
   stdout (snd (script exact_ops missing_rate_world)) =
     [PFrame example_frame, PStr (''Error during transformation: '' @ apos @ ''EUR'' @ apos)]"
proof -
  have a: "script exact_ops offline_world =
     (Inl (RequestError ''connection failed''),
      offline_world\<lparr>log_lines := [''2023-Sep-08-09:16:35 : Starting data extraction'' @ [CHR 0x0A]]\<rparr>)"
    by (simp add: script_def extract_def bind_def log_progress_def offline_world_def example_world_def)
  have b: "fst (script exact_ops read_only_world) = Inl (OSError ''Permission denied'') \<and>
   stdout (snd (script exact_ops read_only_world)) =
     [PFrame example_frame, PFrame enriched_frame,
      PStr ''Error during transformation: single positional indexer is out-of-bounds'']"
    by code_simp
  have c: "fst (script exact_ops missing_rate_world) =
     Inl (NameError (''name '' @ apos @ ''df_transformed'' @ apos @ '' is not defined'')) \<and>
   stdout (snd (script exact_ops missing_rate_world)) =
     [PFrame example_frame, PStr (''Error during transformation: '' @ apos @ ''EUR'' @ apos)]"
    by code_simp
  from a b c show ?thesis by blast
qed

text \<open>
  C10, as stated, fails: on the three records and the three rates the average query
  prints 128/3, the mean of 80, 40 and 8, and not 56.
\<close>

theorem pipeline_mean_counterexample:
  "PFrame [(''Avg_MC_GBP_Billion'', [Num 56])] \<notin> set (take 15 (stdout (snd (script exact_ops example_world)))) \<and>
   take 15 (stdout (snd (script exact_ops example_world))) ! 11 = PFrame [(''Avg_MC_GBP_Billion'', [Num (128 / 3)])]"
  using script_example by (simp add: example_frame_def enriched_frame_def)

text \<open>
  C10, amended. On the page of the three banks with MC_USD_Billion 100.0, 50.0 and 10.0
  and the rates GBP 0.8, EUR 0.93 and INR 82.5 the script ends normally; the table it
  prints has as first record (Bank A, 100, 80, 93, 8250); the average of MC_GBP_Billion
  it prints is 128/3 (42.67 to two decimals); and the names it prints for the first five
  rows are the three names in the order of extraction.
\<close>

theorem pipeline_three_banks:
  "fst (script exact_ops example_world) = Inr () \<and>
   take 15 (stdout (snd (script exact_ops example_world))) ! 8 = PFrame enriched_frame \<and>
   map (\<lambda>c. snd c ! 0) enriched_frame = [Str ''Bank A'', Num 100, Num 80, Num 93, Num 8250] \<and>
   take 15 (stdout (snd (script exact_ops example_world))) ! 11 =
     PFrame [(''Avg_MC_GBP_Billion'', [Num (128 / 3)])] \<and>
   take 15 (stdout (snd (script exact_ops example_world))) ! 14 =
     PFrame [(''Name'', [Str ''Bank A'', Str ''Bank B'', Str ''Bank C''])]"
  using script_example by (simp add: enriched_frame_def)

end
